theory Spec2Isabelle
  imports Main
begin

section \<open>Values exchanged with the socket server\<close>

text \<open>
  The realtime server is the Socket.IO part of the API's entry file (the handshake
  middleware \<open>io.use\<close> and the handlers registered in \<open>io.on('connection')\<close>); the client
  side is \<open>SocketManager\<close> (web/lib/socket.ts) and the cursor clean-up of
  \<open>CanvasPage\<close>. Identifiers are JavaScript strings. A field of a message object is a
  string or is absent (\<open>undefined\<close>), which is \<open>None\<close> here; the message object itself
  may be missing too, and the handlers take it as an option.
\<close>

type_synonym socket_id = string
type_synonym room = string

text \<open>JavaScript truthiness of such a field: \<open>undefined\<close> and the empty string are falsy.\<close>

definition truthy :: "string option \<Rightarrow> bool" where
  "truthy v = (case v of None \<Rightarrow> False | Some s \<Rightarrow> s \<noteq> [])"

text \<open>What a template literal prints for the field.\<close>

definition interpolate :: "string option \<Rightarrow> string" where
  "interpolate v = (case v of None \<Rightarrow> ''undefined'' | Some s \<Rightarrow> s)"

definition board_room :: "string option \<Rightarrow> room" where
  "board_room b = ''board:'' @ interpolate b"

definition page_room :: "string option \<Rightarrow> room" where
  "page_room p = ''page:'' @ interpolate p"

text \<open>
  The wrapped event of the legacy \<open>canvas-event\<close> message and the data object of every
  inbound message. \<open>rest\<close> holds the members the server never looks at (shape, shapeId,
  x, y, settings and so on).
\<close>

record canvas_event_obj =
  ev_type :: "string option"
  ev_rest :: "(string \<times> string) list"

record message =
  boardId :: "string option"
  pageId :: "string option"
  event :: "canvas_event_obj option"
  rest :: "(string \<times> string) list"

text \<open>
  What is sent out or stored as JSON: an error text, a message object as received, the
  wrapped legacy event, or a cursor message extended with \<open>socketId\<close> and \<open>userName\<close>.
\<close>

datatype payload =
  Text string
| Data message
| Wrapped canvas_event_obj
| CursorData message socket_id string

section \<open>The database behind Prisma\<close>

text \<open>
  Tables as the migrations declare them, reduced to the columns the socket server reads or
  writes. \<open>online\<close> says whether the database can be reached: a Prisma call on an
  unreachable database rejects.
\<close>

datatype MembershipRole = OWNER | EDITOR | VIEWER

record user =
  user_id :: string
  email :: string
  user_name :: "string option"

record membership =
  m_userId :: string
  m_boardId :: string
  role :: MembershipRole

record board =
  board_id :: string
  ownerId :: string

record share_link =
  sl_token :: string
  sl_boardId :: string
  sl_canEdit :: bool

record board_event =
  e_boardId :: string
  e_pageId :: "string option"
  e_type :: string
  e_payload :: payload

record database =
  online :: bool
  users :: "user list"
  boards :: "board list"
  memberships :: "membership list"
  share_links :: "share_link list"
  board_pages :: "string list"
  board_events :: "board_event list"

datatype 'a prisma_result = Rejected | Resolved 'a

text \<open>
  \<open>prisma.user.findUnique({ where: { id } })\<close>: rejects when the id is undefined (the
  unique selector is empty) or the database is unreachable, resolves to the row or null.
\<close>

definition user_findUnique :: "database \<Rightarrow> string option \<Rightarrow> user option prisma_result" where
  "user_findUnique d i =
     (case i of
        None \<Rightarrow> Rejected
      | Some uid \<Rightarrow>
          if online d then Resolved (find (\<lambda>u. user_id u = uid) (users d)) else Rejected)"

text \<open>\<open>prisma.board.findUnique({ where: { id }, include: { memberships: true } })\<close>.\<close>

definition board_findUnique ::
    "database \<Rightarrow> string \<Rightarrow> (board \<times> membership list) option prisma_result" where
  "board_findUnique d bid =
     (if online d then
        Resolved
          (case find (\<lambda>b. board_id b = bid) (boards d) of
             None \<Rightarrow> None
           | Some b \<Rightarrow> Some (b, filter (\<lambda>m. m_boardId m = bid) (memberships d)))
      else Rejected)"

text \<open>\<open>prisma.shareLink.findUnique({ where: { token } })\<close>.\<close>

definition shareLink_findUnique :: "database \<Rightarrow> string \<Rightarrow> share_link option prisma_result" where
  "shareLink_findUnique d t =
     (if online d then Resolved (find (\<lambda>l. sl_token l = t) (share_links d)) else Rejected)"

text \<open>
  \<open>prisma.boardEvent.create({ data: { boardId, pageId, type, payload } })\<close>. The columns
  boardId and type are NOT NULL, boardId references boards and a non-null pageId references
  board_pages; a violated constraint or an unreachable database rejects. Otherwise the row
  is appended and returned.
\<close>

definition boardEvent_create ::
    "database \<Rightarrow> string option \<Rightarrow> string option \<Rightarrow> string option \<Rightarrow> payload \<Rightarrow>
     (board_event \<times> database) prisma_result" where
  "boardEvent_create d b p t pl =
     (case b of
        None \<Rightarrow> Rejected
      | Some bid \<Rightarrow>
          (case t of
             None \<Rightarrow> Rejected
           | Some ty \<Rightarrow>
               if online d \<and> bid \<in> set (map board_id (boards d)) \<and>
                  (case p of None \<Rightarrow> True | Some pid \<Rightarrow> pid \<in> set (board_pages d))
               then
                 (let row = \<lparr>e_boardId = bid, e_pageId = p, e_type = ty, e_payload = pl\<rparr>
                  in Resolved (row, d\<lparr>board_events := board_events d @ [row]\<rparr>))
               else Rejected))"

section \<open>Sockets, rooms and the observable effects\<close>

text \<open>\<open>socket.data\<close> as the handshake sets it, and a server-side socket.\<close>

record socket_data =
  data_userId :: "string option"
  data_boardId :: string
  data_pageId :: "string option"
  data_canEdit :: bool
  data_userName :: string

record socket =
  sid :: socket_id
  sdata :: socket_data

text \<open>
  Every effect a handler has on the outside, in the order it happens: a message to the
  sender's own client, a row made durable, a message to the members of a room (with the
  sockets it is delivered to), and joining or leaving a room.
\<close>

datatype action =
  Emit socket_id string payload
| Persisted board_event
| Broadcast room "socket_id set" string payload
| Join socket_id room
| Leave socket_id room

record world =
  rooms :: "room \<Rightarrow> socket_id set"
  db :: database
  trace :: "action list"

text \<open>\<open>socket.emit(name, arg)\<close>: to the client of this socket only.\<close>

definition socket_emit :: "socket \<Rightarrow> string \<Rightarrow> payload \<Rightarrow> world \<Rightarrow> world" where
  "socket_emit s n p w = w\<lparr>trace := trace w @ [Emit (sid s) n p]\<rparr>"

text \<open>\<open>socket.join(room)\<close> and \<open>socket.leave(room)\<close> on the in-memory adapter.\<close>

definition socket_join :: "socket_id \<Rightarrow> room \<Rightarrow> world \<Rightarrow> world" where
  "socket_join i r w =
     w\<lparr>rooms := (rooms w)(r := insert i (rooms w r)), trace := trace w @ [Join i r]\<rparr>"

definition socket_leave :: "socket_id \<Rightarrow> room \<Rightarrow> world \<Rightarrow> world" where
  "socket_leave i r w =
     w\<lparr>rooms := (rooms w)(r := rooms w r - {i}), trace := trace w @ [Leave i r]\<rparr>"

text \<open>
  \<open>socket.to(room).emit(name, arg)\<close>: Socket.IO delivers to the sockets that are in the
  room when the call is made, but for the socket the call is made on.
\<close>

definition socket_to_emit :: "socket \<Rightarrow> room \<Rightarrow> string \<Rightarrow> payload \<Rightarrow> world \<Rightarrow> world" where
  "socket_to_emit s r n p w = w\<lparr>trace := trace w @ [Broadcast r (rooms w r - {sid s}) n p]\<rparr>"

text \<open>
  \<open>await prisma.boardEvent.create(...)\<close> seen from a handler. While the handler is
  suspended other connections' handlers run; \<open>meanwhile\<close> is what they do to the room
  registry before the handler resumes (the identity when nothing happens).
\<close>

definition await_boardEvent_create ::
    "string option \<Rightarrow> string option \<Rightarrow> string option \<Rightarrow> payload \<Rightarrow>
     ((room \<Rightarrow> socket_id set) \<Rightarrow> (room \<Rightarrow> socket_id set)) \<Rightarrow> world \<Rightarrow> world prisma_result" where
  "await_boardEvent_create b p t pl meanwhile w =
     (case boardEvent_create (db w) b p t pl of
        Rejected \<Rightarrow> Rejected
      | Resolved (row, d') \<Rightarrow>
          Resolved (w\<lparr>rooms := meanwhile (rooms w), db := d', trace := trace w @ [Persisted row]\<rparr>))"

section \<open>The handshake middleware\<close>

record handshake_auth =
  token :: "string option"
  shareToken :: "string option"
  auth_boardId :: "string option"
  auth_pageId :: "string option"

record jwt_payload =
  userId :: "string option"

text \<open>
  The end of the middleware: \<open>socket.data\<close> is set, the socket joins the board room and,
  when a page id was given, the page room.
\<close>

definition establish ::
    "socket_id \<Rightarrow> string option \<Rightarrow> string \<Rightarrow> string option \<Rightarrow> bool \<Rightarrow> string \<Rightarrow> world \<Rightarrow>
     socket \<times> world" where
  "establish i uid bid pid canEdit userName w =
     (let s = \<lparr>sid = i,
               sdata = \<lparr>data_userId = uid, data_boardId = bid, data_pageId = pid,
                        data_canEdit = canEdit, data_userName = userName\<rparr>\<rparr>;
          w1 = socket_join i (board_room (Some bid)) w
      in (s, if truthy pid then socket_join i (page_room pid) w1 else w1))"

text \<open>
  The branch taken when a bearer token is present. \<open>verify\<close> is \<open>jwt.verify\<close> with the
  server's secret: \<open>None\<close> when it throws. Every throw inside the middleware is caught
  and turned into "Authentication failed".
\<close>

definition bearer_path ::
    "(string \<Rightarrow> jwt_payload option) \<Rightarrow> socket_id \<Rightarrow> string \<Rightarrow> string \<Rightarrow> string option \<Rightarrow> world \<Rightarrow>
     string + (socket \<times> world)" where
  "bearer_path verify i tok bid pid w =
     (case verify tok of
        None \<Rightarrow> Inl ''Authentication failed''
      | Some decoded \<Rightarrow>
          (case user_findUnique (db w) (userId decoded) of
             Rejected \<Rightarrow> Inl ''Authentication failed''
           | Resolved None \<Rightarrow> Inl ''User not found''
           | Resolved (Some u) \<Rightarrow>
               (case board_findUnique (db w) bid of
                  Rejected \<Rightarrow> Inl ''Authentication failed''
                | Resolved None \<Rightarrow> Inl ''Board not found''
                | Resolved (Some (b, ms)) \<Rightarrow>
                    (let isOwner = (ownerId b = user_id u);
                         membershipRole = map_option role (find (\<lambda>m. m_userId m = user_id u) ms);
                         canEdit = (isOwner \<or> membershipRole = Some OWNER \<or>
                                    membershipRole = Some EDITOR);
                         userName = (if truthy (user_name u) then interpolate (user_name u)
                                     else email u)
                     in Inr (establish i (Some (user_id u)) bid pid canEdit userName w)))))"

definition share_path ::
    "socket_id \<Rightarrow> string \<Rightarrow> string \<Rightarrow> string option \<Rightarrow> world \<Rightarrow> string + (socket \<times> world)" where
  "share_path i st bid pid w =
     (case shareLink_findUnique (db w) st of
        Rejected \<Rightarrow> Inl ''Authentication failed''
      | Resolved None \<Rightarrow> Inl ''Invalid share token''
      | Resolved (Some l) \<Rightarrow>
          if sl_boardId l \<noteq> bid then Inl ''Invalid share token''
          else Inr (establish i None bid pid (sl_canEdit l) ''Anonymous User'' w))"

text \<open>\<open>io.use(async (socket, next) => ...)\<close>: \<open>Inl\<close> is the error passed to \<open>next\<close>.\<close>

definition io_use ::
    "(string \<Rightarrow> jwt_payload option) \<Rightarrow> socket_id \<Rightarrow> handshake_auth \<Rightarrow> world \<Rightarrow>
     string + (socket \<times> world)" where
  "io_use verify i a w =
     (if \<not> truthy (auth_boardId a) then Inl ''Board ID required''
      else if truthy (token a) then
        bearer_path verify i (interpolate (token a)) (interpolate (auth_boardId a))
          (auth_pageId a) w
      else if truthy (shareToken a) then
        share_path i (interpolate (shareToken a)) (interpolate (auth_boardId a))
          (auth_pageId a) w
      else Inl ''Authentication required'')"

section \<open>The message handlers\<close>

text \<open>
  What a client sends with an event name is the handler's argument \<open>data\<close>. It is an
  object (\<open>Some\<close>) or it is missing or null (\<open>None\<close>). Every handler starts by destructuring
  \<open>data\<close>, which throws a TypeError on a missing or null argument before anything else
  has happened.

  How a handler ends: it returns, or it throws (for an async handler: its promise rejects)
  with nothing caught.
\<close>

datatype completion = Returned | Threw string

text \<open>\<open>socket.on('page:switch', ...)\<close>: the only handler that writes \<open>socket.data\<close>.\<close>

definition page_switch :: "socket \<Rightarrow> message option \<Rightarrow> world \<Rightarrow> completion \<times> socket \<times> world" where
  "page_switch s data w =
     (case data of
        None \<Rightarrow> (Threw ''TypeError'', s, w)
      | Some d \<Rightarrow>
          if Some (data_boardId (sdata s)) \<noteq> boardId d then
            (Returned, s, socket_emit s ''error'' (Text ''Access denied'') w)
          else
            (let w1 = (if truthy (data_pageId (sdata s))
                       then socket_leave (sid s) (page_room (data_pageId (sdata s))) w else w);
                 s' = s\<lparr>sdata := (sdata s)\<lparr>data_pageId := pageId d\<rparr>\<rparr>
             in (Returned, s', socket_join (sid s) (page_room (pageId d)) w1)))"

text \<open>\<open>handleShapeEvent\<close>, registered for shape:add, shape:update and shape:delete.\<close>

definition handleShapeEvent ::
    "string \<Rightarrow> socket \<Rightarrow> message option \<Rightarrow>
     ((room \<Rightarrow> socket_id set) \<Rightarrow> (room \<Rightarrow> socket_id set)) \<Rightarrow> world \<Rightarrow> completion \<times> world" where
  "handleShapeEvent eventName s data meanwhile w =
     (case data of
        None \<Rightarrow> (Threw ''TypeError'', w)
      | Some d \<Rightarrow>
          if \<not> data_canEdit (sdata s) then
            (Returned, socket_emit s ''error'' (Text ''Edit permission denied'') w)
          else if \<not> truthy (pageId d) then
            (Returned, socket_emit s ''error'' (Text ''Page ID required'') w)
          else
            (case await_boardEvent_create (boardId d) (pageId d) (Some eventName) (Data d)
                    meanwhile w of
               Rejected \<Rightarrow> (Threw ''PrismaClientError'', w\<lparr>rooms := meanwhile (rooms w)\<rparr>)
             | Resolved w' \<Rightarrow>
                 (Returned, socket_to_emit s (page_room (pageId d)) eventName (Data d) w')))"

definition shape_add ::
    "socket \<Rightarrow> message option \<Rightarrow> ((room \<Rightarrow> socket_id set) \<Rightarrow> (room \<Rightarrow> socket_id set)) \<Rightarrow>
     world \<Rightarrow> completion \<times> world" where
  "shape_add = handleShapeEvent ''shape:add''"

definition shape_update ::
    "socket \<Rightarrow> message option \<Rightarrow> ((room \<Rightarrow> socket_id set) \<Rightarrow> (room \<Rightarrow> socket_id set)) \<Rightarrow>
     world \<Rightarrow> completion \<times> world" where
  "shape_update = handleShapeEvent ''shape:update''"

definition shape_delete ::
    "socket \<Rightarrow> message option \<Rightarrow> ((room \<Rightarrow> socket_id set) \<Rightarrow> (room \<Rightarrow> socket_id set)) \<Rightarrow>
     world \<Rightarrow> completion \<times> world" where
  "shape_delete = handleShapeEvent ''shape:delete''"

text \<open>\<open>socket.on('presence:cursor', ...)\<close>: nothing is stored, the message is relayed.\<close>

definition presence_cursor :: "socket \<Rightarrow> message option \<Rightarrow> world \<Rightarrow> completion \<times> world" where
  "presence_cursor s data w =
     (case data of
        None \<Rightarrow> (Threw ''TypeError'', w)
      | Some d \<Rightarrow>
          if \<not> truthy (pageId d) then (Returned, w)
          else
            (Returned,
             socket_to_emit s (page_room (pageId d)) ''presence:cursor''
               (CursorData d (sid s) (data_userName (sdata s))) w))"

text \<open>\<open>socket.on('page:settings:update', ...)\<close>.\<close>

definition page_settings_update :: "socket \<Rightarrow> message option \<Rightarrow> world \<Rightarrow> completion \<times> world" where
  "page_settings_update s data w =
     (case data of
        None \<Rightarrow> (Threw ''TypeError'', w)
      | Some d \<Rightarrow>
          if \<not> data_canEdit (sdata s) then
            (Returned, socket_emit s ''error'' (Text ''Edit permission denied'') w)
          else if \<not> truthy (pageId d) then
            (Returned, socket_emit s ''error'' (Text ''Page ID required'') w)
          else
            (Returned,
             socket_to_emit s (page_room (pageId d)) ''page:settings:update'' (Data d) w))"

text \<open>\<open>socket.on('asset:add', ...)\<close>.\<close>

definition asset_add :: "socket \<Rightarrow> message option \<Rightarrow> world \<Rightarrow> completion \<times> world" where
  "asset_add s data w =
     (case data of
        None \<Rightarrow> (Threw ''TypeError'', w)
      | Some d \<Rightarrow>
          if \<not> data_canEdit (sdata s) then
            (Returned, socket_emit s ''error'' (Text ''Edit permission denied'') w)
          else
            (Returned, socket_to_emit s (board_room (boardId d)) ''asset:add'' (Data d) w))"

text \<open>
  \<open>socket.on('canvas-event', ...)\<close>, the legacy message. Reading \<open>event.type\<close> of a
  message without an event throws a TypeError as well, after the permission check and
  before anything is stored.
\<close>

definition canvas_event ::
    "socket \<Rightarrow> message option \<Rightarrow> ((room \<Rightarrow> socket_id set) \<Rightarrow> (room \<Rightarrow> socket_id set)) \<Rightarrow>
     world \<Rightarrow> completion \<times> world" where
  "canvas_event s data meanwhile w =
     (case data of
        None \<Rightarrow> (Threw ''TypeError'', w)
      | Some d \<Rightarrow>
          if \<not> data_canEdit (sdata s) then
            (Returned, socket_emit s ''error'' (Text ''Edit permission denied'') w)
          else
            (case event d of
               None \<Rightarrow> (Threw ''TypeError'', w)
             | Some e \<Rightarrow>
                 (case await_boardEvent_create (boardId d)
                         (if truthy (pageId d) then pageId d else None) (ev_type e) (Wrapped e)
                         meanwhile w of
                    Rejected \<Rightarrow>
                      (Threw ''PrismaClientError'', w\<lparr>rooms := meanwhile (rooms w)\<rparr>)
                  | Resolved w' \<Rightarrow>
                      (Returned,
                       socket_to_emit s
                         (if truthy (pageId d) then page_room (pageId d)
                          else board_room (boardId d))
                         ''canvas-event'' (Wrapped e) w'))))"

text \<open>
  \<open>socket.on('disconnect', ...)\<close> only writes to the console; Socket.IO itself has taken
  the socket out of its rooms.
\<close>

definition disconnect :: "socket \<Rightarrow> world \<Rightarrow> world" where
  "disconnect s w = w\<lparr>rooms := (\<lambda>r. rooms w r - {sid s})\<rparr>"

text \<open>The registrations \<open>socket.on(name, handler)\<close> of a connection.\<close>

datatype inbound =
  PageSwitch
| ShapeAdd
| ShapeUpdate
| ShapeDelete
| PresenceCursor
| PageSettingsUpdate
| AssetAdd
| CanvasEvent

fun on_message ::
    "inbound \<Rightarrow> socket \<Rightarrow> message option \<Rightarrow>
     ((room \<Rightarrow> socket_id set) \<Rightarrow> (room \<Rightarrow> socket_id set)) \<Rightarrow> world \<Rightarrow>
     completion \<times> socket \<times> world" where
  "on_message PageSwitch s data meanwhile w = page_switch s data w"
| "on_message ShapeAdd s data meanwhile w =
     (case shape_add s data meanwhile w of (c, w') \<Rightarrow> (c, s, w'))"
| "on_message ShapeUpdate s data meanwhile w =
     (case shape_update s data meanwhile w of (c, w') \<Rightarrow> (c, s, w'))"
| "on_message ShapeDelete s data meanwhile w =
     (case shape_delete s data meanwhile w of (c, w') \<Rightarrow> (c, s, w'))"
| "on_message PresenceCursor s data meanwhile w =
     (case presence_cursor s data w of (c, w') \<Rightarrow> (c, s, w'))"
| "on_message PageSettingsUpdate s data meanwhile w =
     (case page_settings_update s data w of (c, w') \<Rightarrow> (c, s, w'))"
| "on_message AssetAdd s data meanwhile w =
     (case asset_add s data w of (c, w') \<Rightarrow> (c, s, w'))"
| "on_message CanvasEvent s data meanwhile w =
     (case canvas_event s data meanwhile w of (c, w') \<Rightarrow> (c, s, w'))"

text \<open>What a handler added to the trace of the world it started in.\<close>

definition new_actions :: "world \<Rightarrow> world \<Rightarrow> action list" where
  "new_actions w w' = drop (length (trace w)) (trace w')"


fun is_broadcast :: "action \<Rightarrow> bool" where
  "is_broadcast (Broadcast r R n p) = True"
| "is_broadcast a = False"

fun is_persisted :: "action \<Rightarrow> bool" where
  "is_persisted (Persisted e) = True"
| "is_persisted a = False"

section \<open>The client\<close>





text \<open>
  The remote cursors of a \<open>CanvasPage\<close>: the fabric canvas (\<open>fabRef.current\<close>, the ids
  of the objects on it, or null), the map \<open>remoteCursorsRef.current\<close> in insertion order
  with a millisecond timestamp per entry, and the messages the page has handed to the
  socket so far.
\<close>

record remote_cursor =
  dot :: nat
  label :: "nat option"
  lastSeen :: int

record canvas_page =
  fabRef :: "nat list option"
  remoteCursors :: "(socket_id \<times> remote_cursor) list"
  outbox :: "(string \<times> message) list"

definition staleThreshold :: int where
  "staleThreshold = 3000"

definition is_stale :: "int \<Rightarrow> socket_id \<times> remote_cursor \<Rightarrow> bool" where
  "is_stale now e = (now - lastSeen (snd e) > staleThreshold)"

definition cursor_objects :: "socket_id \<times> remote_cursor \<Rightarrow> nat list" where
  "cursor_objects e = dot (snd e) # (case label (snd e) of None \<Rightarrow> [] | Some l \<Rightarrow> [l])"

text \<open>The body of the one-second interval ("Cursor cleanup"), run at time \<open>now\<close>.\<close>

definition cursor_cleanup :: "int \<Rightarrow> canvas_page \<Rightarrow> canvas_page" where
  "cursor_cleanup now pg =
     (case fabRef pg of
        None \<Rightarrow> pg
      | Some canvas \<Rightarrow>
          pg\<lparr>fabRef :=
               Some (filter (\<lambda>obj. obj \<notin> set (concat (map cursor_objects
                                (filter (is_stale now) (remoteCursors pg))))) canvas),
             remoteCursors := filter (\<lambda>e. \<not> is_stale now e) (remoteCursors pg)\<rparr>)"

section \<open>A small deployment used to exercise the theorems\<close>

text \<open>
  Two users, Alice owning boards b1 and b2, Bob an editor of b2 with no membership row for
  b1; a read-only share link for b1; pages p1 and p2 (of b1) and q1 (of b2). Sockets A
  (Alice, editing b1 on p1), B and V are in the rooms of b1 and p1, socket C is on p2.
\<close>

definition demo_db :: database where
  "demo_db =
     \<lparr>online = True,
      users = [\<lparr>user_id = ''u1'', email = ''alice@example.org'', user_name = Some ''Alice''\<rparr>,
               \<lparr>user_id = ''u2'', email = ''bob@example.org'', user_name = None\<rparr>],
      boards = [\<lparr>board_id = ''b1'', ownerId = ''u1''\<rparr>, \<lparr>board_id = ''b2'', ownerId = ''u1''\<rparr>],
      memberships = [\<lparr>m_userId = ''u1'', m_boardId = ''b1'', role = OWNER\<rparr>,
                     \<lparr>m_userId = ''u2'', m_boardId = ''b2'', role = EDITOR\<rparr>],
      share_links = [\<lparr>sl_token = ''t1'', sl_boardId = ''b1'', sl_canEdit = False\<rparr>],
      board_pages = [''p1'', ''p2'', ''q1''],
      board_events = []\<rparr>"

definition demo_rooms :: "room \<Rightarrow> socket_id set" where
  "demo_rooms =
     (\<lambda>r. {})(''board:b1'' := {''A'', ''B'', ''V''},
              ''page:p1'' := {''A'', ''B'', ''V''},
              ''page:p2'' := {''C''})"

definition demo_world :: world where
  "demo_world = \<lparr>rooms = demo_rooms, db = demo_db, trace = []\<rparr>"

definition editor :: socket where
  "editor =
     \<lparr>sid = ''A'',
      sdata = \<lparr>data_userId = Some ''u1'', data_boardId = ''b1'', data_pageId = Some ''p1'',
               data_canEdit = True, data_userName = ''Alice''\<rparr>\<rparr>"

definition viewer :: socket where
  "viewer =
     \<lparr>sid = ''V'',
      sdata = \<lparr>data_userId = None, data_boardId = ''b1'', data_pageId = Some ''p1'',
               data_canEdit = False, data_userName = ''Anonymous User''\<rparr>\<rparr>"

definition rect_msg :: message where
  "rect_msg = \<lparr>boardId = Some ''b1'', pageId = Some ''p1'', event = None,
               rest = [(''shape'', ''rect'')]\<rparr>"

definition other_board_msg :: message where
  "other_board_msg = \<lparr>boardId = Some ''b2'', pageId = Some ''q1'', event = None,
                      rest = [(''shape'', ''rect'')]\<rparr>"

definition unknown_board_msg :: message where
  "unknown_board_msg = \<lparr>boardId = Some ''zz'', pageId = Some ''p1'', event = None,
                        rest = [(''shape'', ''rect'')]\<rparr>"

definition asset_msg :: message where
  "asset_msg = \<lparr>boardId = Some ''b1'', pageId = None, event = None,
                rest = [(''assetId'', ''a1'')]\<rparr>"

definition stroke :: canvas_event_obj where
  "stroke = \<lparr>ev_type = Some ''draw'', ev_rest = [(''path'', ''M0 0'')]\<rparr>"

definition legacy_msg :: message where
  "legacy_msg = \<lparr>boardId = Some ''b1'', pageId = None, event = Some stroke, rest = []\<rparr>"

definition cursor_msg :: message where
  "cursor_msg = \<lparr>boardId = Some ''b1'', pageId = Some ''p1'', event = None,
                 rest = [(''x'', ''10''), (''y'', ''20'')]\<rparr>"

text \<open>While a handler waits for the database, B leaves page p1 and C moves to it.\<close>

definition b_leaves_c_joins :: "(room \<Rightarrow> socket_id set) \<Rightarrow> (room \<Rightarrow> socket_id set)" where
  "b_leaves_c_joins rs =
     rs(''page:p1'' := insert ''C'' (rs ''page:p1'' - {''B''}), ''page:p2'' := rs ''page:p2'' - {''C''})"

definition demo_verify :: "string \<Rightarrow> jwt_payload option" where
  "demo_verify t =
     (if t = ''jwt-alice'' then Some \<lparr>userId = Some ''u1''\<rparr>
      else if t = ''jwt-bob'' then Some \<lparr>userId = Some ''u2''\<rparr>
      else None)"

definition bob_handshake :: handshake_auth where
  "bob_handshake = \<lparr>token = Some ''jwt-bob'', shareToken = None, auth_boardId = Some ''b1'',
                     auth_pageId = Some ''p1''\<rparr>"

definition both_handshake :: handshake_auth where
  "both_handshake = \<lparr>token = Some ''jwt-alice'', shareToken = Some ''t1'',
                      auth_boardId = Some ''b1'', auth_pageId = None\<rparr>"


definition demo_page :: canvas_page where
  "demo_page =
     \<lparr>fabRef = Some [1, 2, 3, 4, 5],
      remoteCursors = [(''B'', \<lparr>dot = 2, label = Some 3, lastSeen = 1000\<rparr>),
                       (''C'', \<lparr>dot = 4, label = Some 5, lastSeen = 4000\<rparr>)],
      outbox = []\<rparr>"

section \<open>Unfolding rules\<close>

lemmas handler_defs = handleShapeEvent_def shape_add_def shape_update_def shape_delete_def
  page_settings_update_def asset_add_def canvas_event_def presence_cursor_def
  socket_emit_def socket_to_emit_def await_boardEvent_create_def

lemmas demo_defs = demo_world_def demo_db_def demo_rooms_def editor_def viewer_def rect_msg_def
  other_board_msg_def unknown_board_msg_def asset_msg_def legacy_msg_def stroke_def
  cursor_msg_def b_leaves_c_joins_def

section \<open>Read-only connections\<close>




section \<open>Shape events of an editing connection\<close>

text \<open>
  Claim C2. A shape:add, shape:update or shape:delete message from a connection that may
  edit, with a page id, whose board and page exist in a reachable database, is stored with
  the board id and page id of the message and broadcast to the page room of the message's
  page id. The bound board id and the tracked page id of the connection play no part:
  replacing them by any other values gives the same outcome, so a message that names
  another board than the bound one is not refused and is stored under that other board.
\<close>

theorem shape_event_follows_message_ids:
  assumes "data_canEdit (sdata s)"
    and "boardId d = Some b" and "pageId d = Some p" and "p \<noteq> []"
    and "online (db w)" and "b \<in> set (map board_id (boards (db w)))"
    and "p \<in> set (board_pages (db w))"
  shows "handleShapeEvent n s (Some d) meanwhile w =
           (Returned,
            w\<lparr>rooms := meanwhile (rooms w),
              db := (db w)\<lparr>board_events := board_events (db w) @
                       [\<lparr>e_boardId = b, e_pageId = Some p, e_type = n, e_payload = Data d\<rparr>]\<rparr>,
              trace := trace w @
                [Persisted \<lparr>e_boardId = b, e_pageId = Some p, e_type = n, e_payload = Data d\<rparr>,
                 Broadcast (''page:'' @ p) (meanwhile (rooms w) (''page:'' @ p) - {sid s}) n (Data d)]\<rparr>) \<and>
         handleShapeEvent n (s\<lparr>sdata := (sdata s)\<lparr>data_boardId := b', data_pageId := p'\<rparr>\<rparr>)
             (Some d) meanwhile w =
           handleShapeEvent n s (Some d) meanwhile w"
  using assms
  by (simp add: handler_defs boardEvent_create_def truthy_def page_room_def interpolate_def Let_def)

text \<open>Alice's socket is bound to board b1 and sends a shape for page q1 of board b2.\<close>

theorem shape_event_follows_message_ids_witness:
  "data_boardId (sdata editor) \<noteq> ''b2'' \<and>
   shape_add editor (Some other_board_msg) id demo_world =
     (Returned,
      \<lparr>rooms = demo_rooms,
       db = demo_db\<lparr>board_events :=
              [\<lparr>e_boardId = ''b2'', e_pageId = Some ''q1'', e_type = ''shape:add'',
                e_payload = Data other_board_msg\<rparr>]\<rparr>,
       trace =
         [Persisted \<lparr>e_boardId = ''b2'', e_pageId = Some ''q1'', e_type = ''shape:add'',
                     e_payload = Data other_board_msg\<rparr>,
          Broadcast ''page:q1'' {} ''shape:add'' (Data other_board_msg)]\<rparr>)"
proof -
  have "shape_add editor (Some other_board_msg) id demo_world =
          handleShapeEvent ''shape:add'' editor (Some other_board_msg) id demo_world"
    by (simp add: shape_add_def)
  also have "\<dots> =
     (Returned,
      demo_world\<lparr>rooms := id (rooms demo_world),
        db := (db demo_world)\<lparr>board_events := board_events (db demo_world) @
              [\<lparr>e_boardId = ''b2'', e_pageId = Some ''q1'', e_type = ''shape:add'',
                e_payload = Data other_board_msg\<rparr>]\<rparr>,
        trace := trace demo_world @
         [Persisted \<lparr>e_boardId = ''b2'', e_pageId = Some ''q1'', e_type = ''shape:add'',
                     e_payload = Data other_board_msg\<rparr>,
          Broadcast (''page:'' @ ''q1'') (id (rooms demo_world) (''page:'' @ ''q1'') - {sid editor})
            ''shape:add'' (Data other_board_msg)]\<rparr>)"
    using shape_event_follows_message_ids
            [of editor other_board_msg "''b2''" "''q1''" demo_world "''shape:add''" id]
    by (simp add: demo_defs)
  finally show ?thesis
    by (simp add: demo_defs)
qed

text \<open>
  Claim C3. Whenever \<open>handleShapeEvent\<close> broadcasts, the row has been stored first: what the
  handler added to the trace is the stored row followed by the broadcast of the same data,
  and the database it leaves holds the row. The broadcast is issued only once the awaited
  \<open>create\<close> has resolved, so no peer is sent a shape event that is not durable.
\<close>

theorem shape_event_persists_before_broadcast:
  assumes "handleShapeEvent n s data meanwhile w = (c, w')"
    and "Broadcast r R m p \<in> set (new_actions w w')"
  shows "\<exists>row. new_actions w w' = [Persisted row, Broadcast r R m p] \<and>
               e_payload row = p \<and> e_type row = m \<and>
               board_events (db w') = board_events (db w) @ [row]"
  using assms
  by (auto simp add: handler_defs boardEvent_create_def new_actions_def Let_def
        split: if_splits option.splits prisma_result.splits prod.splits)

text \<open>Alice adds a rectangle on p1 while B leaves the page and C arrives.\<close>

theorem shape_event_persists_before_broadcast_witness:
  "\<exists>row. new_actions demo_world
            (snd (shape_add editor (Some rect_msg) b_leaves_c_joins demo_world)) =
            [Persisted row, Broadcast ''page:p1'' {''C'', ''V''} ''shape:add'' (Data rect_msg)] \<and>
         e_payload row = Data rect_msg \<and> e_type row = ''shape:add'' \<and>
         board_events (db (snd (shape_add editor (Some rect_msg) b_leaves_c_joins demo_world))) =
           board_events (db demo_world) @ [row]"
proof -
  let ?w' = "snd (handleShapeEvent ''shape:add'' editor (Some rect_msg) b_leaves_c_joins
                    demo_world)"
  have run: "handleShapeEvent ''shape:add'' editor (Some rect_msg) b_leaves_c_joins demo_world =
               (Returned, ?w')"
    by (simp add: handler_defs demo_defs boardEvent_create_def truthy_def Let_def)
  have sent: "Broadcast ''page:p1'' {''C'', ''V''} ''shape:add'' (Data rect_msg)
                \<in> set (new_actions demo_world ?w')"
    by (auto simp add: handler_defs demo_defs boardEvent_create_def truthy_def Let_def
          new_actions_def page_room_def interpolate_def)
  from shape_event_persists_before_broadcast [OF run sent] show ?thesis
    by (simp add: shape_add_def)
qed

section \<open>A failing store\<close>

text \<open>
  Claim C4 as stated fails: Alice's shape names a board that does not exist, the insert is
  rejected, and the handler's promise rejects without anything having been emitted to her.
\<close>

theorem failed_persistence_emits_nothing:
  "data_canEdit (sdata editor) \<and> truthy (pageId unknown_board_msg) \<and>
   boardEvent_create (db demo_world) (boardId unknown_board_msg) (pageId unknown_board_msg)
     (Some ''shape:add'') (Data unknown_board_msg) = Rejected \<and>
   shape_add editor (Some unknown_board_msg) id demo_world =
     (Threw ''PrismaClientError'', demo_world) \<and>
   trace (snd (shape_add editor (Some unknown_board_msg) id demo_world)) = []"
  by (simp add: handler_defs demo_defs boardEvent_create_def truthy_def)

text \<open>
  Claim C4, amended. When the insert of a mutation is rejected (a violated constraint or an
  unreachable database), \<open>handleShapeEvent\<close> and the legacy canvas-event handler end with
  a rejected promise that nobody catches: nothing is broadcast to any room, nothing is
  stored, and no error message is emitted to the sender either. The trace and the database
  are those the handler started with.
\<close>

theorem failed_persistence_rejects_silently:
  assumes "data_canEdit (sdata s)"
  shows "(truthy (pageId d) \<and>
          boardEvent_create (db w) (boardId d) (pageId d) (Some n) (Data d) = Rejected \<longrightarrow>
            handleShapeEvent n s (Some d) meanwhile w =
              (Threw ''PrismaClientError'', w\<lparr>rooms := meanwhile (rooms w)\<rparr>)) \<and>
         (event d = Some e \<and>
          boardEvent_create (db w) (boardId d) (if truthy (pageId d) then pageId d else None)
            (ev_type e) (Wrapped e) = Rejected \<longrightarrow>
            canvas_event s (Some d) meanwhile w =
              (Threw ''PrismaClientError'', w\<lparr>rooms := meanwhile (rooms w)\<rparr>))"
  using assms by (simp add: handler_defs)

text \<open>The database is down while Alice updates a shape and sends a legacy event.\<close>

theorem failed_persistence_rejects_silently_witness:
  "data_canEdit (sdata editor) \<and> truthy (pageId rect_msg) \<and>
   boardEvent_create (demo_db\<lparr>online := False\<rparr>) (boardId rect_msg) (pageId rect_msg)
     (Some ''shape:update'') (Data rect_msg) = Rejected \<and>
   shape_update editor (Some rect_msg) b_leaves_c_joins
       (demo_world\<lparr>db := demo_db\<lparr>online := False\<rparr>\<rparr>) =
     (Threw ''PrismaClientError'',
      demo_world\<lparr>rooms := b_leaves_c_joins demo_rooms, db := demo_db\<lparr>online := False\<rparr>\<rparr>) \<and>
   event legacy_msg = Some stroke \<and>
   canvas_event editor (Some legacy_msg) id (demo_world\<lparr>db := demo_db\<lparr>online := False\<rparr>\<rparr>) =
     (Threw ''PrismaClientError'', demo_world\<lparr>db := demo_db\<lparr>online := False\<rparr>\<rparr>)"
proof -
  have can: "data_canEdit (sdata editor)"
    by (simp add: editor_def)
  have off: "boardEvent_create (demo_db\<lparr>online := False\<rparr>) b p t pl = Rejected" for b p t pl
    by (simp add: boardEvent_create_def split: option.splits)
  have pg: "truthy (pageId rect_msg)" and ev: "event legacy_msg = Some stroke"
    by (simp_all add: rect_msg_def legacy_msg_def truthy_def)
  from failed_persistence_rejects_silently
         [OF can, of rect_msg "demo_world\<lparr>db := demo_db\<lparr>online := False\<rparr>\<rparr>" "''shape:update''"
            b_leaves_c_joins stroke]
       failed_persistence_rejects_silently
         [OF can, of legacy_msg "demo_world\<lparr>db := demo_db\<lparr>online := False\<rparr>\<rparr>" "''shape:update''"
            id stroke]
  show ?thesis
    using can off pg ev by (simp add: shape_update_def demo_world_def)
qed

section \<open>Asset notifications\<close>

text \<open>
  Claim C6 as stated fails: Alice, who may edit, announces an asset; her peers in the board
  room are told, and the event table is as empty as before.
\<close>

theorem asset_add_stores_no_event:
  "data_canEdit (sdata editor) \<and>
   asset_add editor (Some asset_msg) demo_world =
     (Returned,
      demo_world\<lparr>trace := [Broadcast ''board:b1'' {''B'', ''V''} ''asset:add'' (Data asset_msg)]\<rparr>) \<and>
   board_events (db (snd (asset_add editor (Some asset_msg) demo_world))) = []"
  by (auto simp add: handler_defs demo_defs board_room_def interpolate_def)

text \<open>
  Claim C6, amended. An asset:add message whose payload is an object, from a connection
  that may edit, is not stored: the handler never calls the event store. Its only effect
  is the broadcast of the data to the board room named by the message's boardId, to every
  socket in that room but the sender's. An asset:add message with no payload (missing or
  null) makes the handler throw a TypeError at the destructuring: nothing is broadcast and
  nothing is stored.
\<close>

theorem asset_add_only_broadcasts:
  assumes "data_canEdit (sdata s)"
  shows "asset_add s (Some d) w =
           (Returned,
            w\<lparr>trace := trace w @
               [Broadcast (board_room (boardId d)) (rooms w (board_room (boardId d)) - {sid s})
                  ''asset:add'' (Data d)]\<rparr>) \<and>
         asset_add s None w = (Threw ''TypeError'', w)"
  using assms by (simp add: handler_defs)

text \<open>The same for a message that names board b2, whose room is empty, and for none.\<close>

theorem asset_add_only_broadcasts_witness:
  "data_canEdit (sdata editor) \<and>
   asset_add editor (Some other_board_msg) demo_world =
     (Returned,
      demo_world\<lparr>trace := [Broadcast ''board:b2'' {} ''asset:add'' (Data other_board_msg)]\<rparr>) \<and>
   asset_add editor None demo_world = (Threw ''TypeError'', demo_world)"
proof -
  have can: "data_canEdit (sdata editor)"
    by (simp add: editor_def)
  from asset_add_only_broadcasts [OF can, of other_board_msg demo_world] show ?thesis
    using can by (simp add: demo_defs board_room_def interpolate_def)
qed

section \<open>Remote cursors\<close>

text \<open>
  Claim C5 as stated fails: the cursor of B has not been refreshed for 3.5 seconds, the
  clean-up drops it from the page's map, and no message leaves the client. On the server a
  cursor message is relayed and leaves nothing behind that a disconnect could announce.
\<close>

theorem stale_cursor_removed_without_notice:
  "is_stale 4500 (''B'', \<lparr>dot = 2, label = Some 3, lastSeen = 1000\<rparr>) \<and>
   remoteCursors (cursor_cleanup 4500 demo_page) =
     [(''C'', \<lparr>dot = 4, label = Some 5, lastSeen = 4000\<rparr>)] \<and>
   outbox (cursor_cleanup 4500 demo_page) = [] \<and>
   trace (disconnect editor (snd (presence_cursor editor (Some cursor_msg) demo_world))) =
     [Broadcast ''page:p1'' {''B'', ''V''} ''presence:cursor'' (CursorData cursor_msg ''A'' ''Alice'')]"
  by (auto simp add: cursor_cleanup_def demo_page_def is_stale_def staleThreshold_def
        disconnect_def handler_defs demo_defs truthy_def page_room_def interpolate_def)

text \<open>
  Claim C5, amended. Presence entries exist only in the client: the remote-cursor map of a
  \<open>CanvasPage\<close>. When the page's canvas exists, one run of the periodic clean-up keeps
  exactly the entries whose age \<open>now - lastSeen\<close> is at most 3000 ms, so every entry older
  than the threshold is gone after the next run. The removal is local: the clean-up sends
  no message, and the server, which stores no presence (a cursor message changes neither
  the rooms nor the database) and does nothing on disconnect, broadcasts no removal notice.
\<close>

theorem cursor_cleanup_is_local:
  assumes "fabRef pg = Some canvas"
  shows "set (remoteCursors (cursor_cleanup now pg)) =
           {e \<in> set (remoteCursors pg). \<not> now - lastSeen (snd e) > 3000} \<and>
         outbox (cursor_cleanup now pg) = outbox pg \<and>
         trace (disconnect s w) = trace w \<and>
         rooms (snd (presence_cursor s data w)) = rooms w \<and>
         db (snd (presence_cursor s data w)) = db w"
  using assms
  by (auto simp add: cursor_cleanup_def is_stale_def staleThreshold_def disconnect_def
        handler_defs split: option.splits)

text \<open>Seven seconds in, both cursors of the page are stale.\<close>

theorem cursor_cleanup_is_local_witness:
  "fabRef demo_page = Some [1, 2, 3, 4, 5] \<and>
   set (remoteCursors (cursor_cleanup 7001 demo_page)) = {} \<and>
   outbox (cursor_cleanup 7001 demo_page) = [] \<and>
   trace (disconnect editor demo_world) = []"
proof -
  have ref: "fabRef demo_page = Some [1, 2, 3, 4, 5]"
    by (simp add: demo_page_def)
  have none: "{e \<in> set (remoteCursors demo_page). \<not> 7001 - lastSeen (snd e) > 3000} = {}"
    by (auto simp add: demo_page_def)
  have start: "outbox demo_page = []" "trace demo_world = []"
    by (simp_all add: demo_page_def demo_world_def)
  from cursor_cleanup_is_local [OF ref, of 7001 editor demo_world "Some cursor_msg"] show ?thesis
    unfolding none start using ref by simp
qed

section \<open>Switching pages\<close>












section \<open>Who receives a broadcast\<close>

lemma page_switch_no_broadcast:
  "Broadcast r R n p \<notin> set (new_actions w (snd (snd (page_switch s data w))))"
  by (simp add: page_switch_def socket_join_def socket_leave_def socket_emit_def
        new_actions_def Let_def split: option.splits)

lemma handleShapeEvent_broadcast:
  assumes "handleShapeEvent e s data meanwhile w = (c, w')"
    and "Broadcast r R n p \<in> set (new_actions w w')"
  shows "R = rooms w' r - {sid s} \<and> last (trace w') = Broadcast r R n p \<and>
         rooms w' = meanwhile (rooms w)"
  using assms
  by (auto simp add: handler_defs boardEvent_create_def new_actions_def Let_def
        split: if_splits option.splits prisma_result.splits prod.splits)

lemma canvas_event_broadcast:
  assumes "canvas_event s data meanwhile w = (c, w')"
    and "Broadcast r R n p \<in> set (new_actions w w')"
  shows "R = rooms w' r - {sid s} \<and> last (trace w') = Broadcast r R n p \<and>
         rooms w' = meanwhile (rooms w)"
  using assms
  by (auto simp add: handler_defs boardEvent_create_def new_actions_def Let_def
        split: if_splits option.splits prisma_result.splits prod.splits)

lemma relay_broadcast:
  assumes "w' = snd (presence_cursor s data w) \<or> w' = snd (page_settings_update s data w) \<or>
           w' = snd (asset_add s data w)"
    and "Broadcast r R n p \<in> set (new_actions w w')"
  shows "R = rooms w' r - {sid s} \<and> last (trace w') = Broadcast r R n p \<and> rooms w' = rooms w"
  using assms
  by (auto simp add: handler_defs new_actions_def split: if_splits option.splits)

text \<open>
  Claim C8. Every broadcast a handler makes (shape events, the legacy event, page settings,
  assets and cursors all go through \<open>socket.to(room).emit\<close>) is delivered to the set \<open>R\<close>
  of sockets that are in the target room when the call is made, without the sender: the
  sender is never in \<open>R\<close>, and any other socket is in \<open>R\<close> exactly when it is in the room.
  The broadcast is the handler's last effect, so the rooms of the world it leaves are the
  rooms at the call; for the handlers that wait for the database first these are the
  rooms as the other connections left them during the wait. A socket that has left by then
  is not in \<open>R\<close>, and one that joins later cannot be.
\<close>

theorem broadcast_reaches_room_except_sender:
  assumes "on_message m s data meanwhile w = (c, s', w')"
    and "Broadcast r R n p \<in> set (new_actions w w')"
  shows "R = rooms w' r - {sid s} \<and>
         sid s \<notin> R \<and>
         (\<forall>x. x \<noteq> sid s \<longrightarrow> (x \<in> R) = (x \<in> rooms w' r)) \<and>
         last (trace w') = Broadcast r R n p \<and>
         rooms w' = (if m \<in> {ShapeAdd, ShapeUpdate, ShapeDelete, CanvasEvent}
                     then meanwhile (rooms w) else rooms w)"
proof -
  have core: "R = rooms w' r - {sid s} \<and> last (trace w') = Broadcast r R n p \<and>
         rooms w' = (if m \<in> {ShapeAdd, ShapeUpdate, ShapeDelete, CanvasEvent}
                     then meanwhile (rooms w) else rooms w)"
  proof (cases m)
    case PageSwitch
    with assms(1) have "w' = snd (snd (page_switch s data w))"
      by auto
    with assms(2) page_switch_no_broadcast show ?thesis
      by blast
  next
    case ShapeAdd
    with assms(1) have "handleShapeEvent ''shape:add'' s data meanwhile w = (c, w')"
      by (auto simp add: shape_add_def split: prod.splits)
    from handleShapeEvent_broadcast [OF this assms(2)] ShapeAdd show ?thesis
      by simp
  next
    case ShapeUpdate
    with assms(1) have "handleShapeEvent ''shape:update'' s data meanwhile w = (c, w')"
      by (auto simp add: shape_update_def split: prod.splits)
    from handleShapeEvent_broadcast [OF this assms(2)] ShapeUpdate show ?thesis
      by simp
  next
    case ShapeDelete
    with assms(1) have "handleShapeEvent ''shape:delete'' s data meanwhile w = (c, w')"
      by (auto simp add: shape_delete_def split: prod.splits)
    from handleShapeEvent_broadcast [OF this assms(2)] ShapeDelete show ?thesis
      by simp
  next
    case PresenceCursor
    with assms(1) have "w' = snd (presence_cursor s data w)"
      by (auto split: prod.splits)
    with relay_broadcast [OF _ assms(2), of s data] PresenceCursor show ?thesis
      by simp
  next
    case PageSettingsUpdate
    with assms(1) have "w' = snd (page_settings_update s data w)"
      by (auto split: prod.splits)
    with relay_broadcast [OF _ assms(2), of s data] PageSettingsUpdate show ?thesis
      by simp
  next
    case AssetAdd
    with assms(1) have "w' = snd (asset_add s data w)"
      by (auto split: prod.splits)
    with relay_broadcast [OF _ assms(2), of s data] AssetAdd show ?thesis
      by simp
  next
    case CanvasEvent
    with assms(1) have "canvas_event s data meanwhile w = (c, w')"
      by (auto split: prod.splits)
    from canvas_event_broadcast [OF this assms(2)] CanvasEvent show ?thesis
      by simp
  qed
  then have "R = rooms w' r - {sid s}"
    by simp
  then have "sid s \<notin> R" and "\<forall>x. x \<noteq> sid s \<longrightarrow> (x \<in> R) = (x \<in> rooms w' r)"
    by blast+
  with core show ?thesis
    by simp
qed

text \<open>
  Alice adds a rectangle on p1; while the row is written B leaves p1 and C joins it. The
  message goes to C and V, not to B and not back to A.
\<close>

theorem broadcast_reaches_room_except_sender_witness:
  "b_leaves_c_joins demo_rooms ''page:p1'' - {''A''} = {''C'', ''V''} \<and>
   ''A'' \<notin> {''C'', ''V''} \<and> ''B'' \<notin> {''C'', ''V''} \<and>
   rooms (snd (snd (on_message ShapeAdd editor (Some rect_msg) b_leaves_c_joins demo_world)))
     ''page:p1'' - {''A''} = {''C'', ''V''} \<and>
   last (trace (snd (snd (on_message ShapeAdd editor (Some rect_msg) b_leaves_c_joins
                            demo_world)))) =
     Broadcast ''page:p1'' {''C'', ''V''} ''shape:add'' (Data rect_msg)"
proof -
  let ?w' = "snd (snd (on_message ShapeAdd editor (Some rect_msg) b_leaves_c_joins demo_world))"
  have run: "on_message ShapeAdd editor (Some rect_msg) b_leaves_c_joins demo_world =
               (Returned, editor, ?w')"
    by (simp add: handler_defs demo_defs boardEvent_create_def truthy_def Let_def)
  have sent: "Broadcast ''page:p1'' {''C'', ''V''} ''shape:add'' (Data rect_msg)
                \<in> set (new_actions demo_world ?w')"
    by (auto simp add: handler_defs demo_defs boardEvent_create_def truthy_def Let_def
          new_actions_def page_room_def interpolate_def)
  have a: "sid editor = ''A''"
    by (simp add: editor_def)
  have rs: "b_leaves_c_joins demo_rooms ''page:p1'' - {''A''} = {''C'', ''V''}"
    by (auto simp add: demo_defs)
  have others: "''A'' \<notin> {''C'', ''V''} \<and> ''B'' \<notin> {''C'', ''V''}"
    by simp
  note inst = broadcast_reaches_room_except_sender [OF run sent, unfolded a]
  from inst have r1: "rooms ?w' ''page:p1'' - {''A''} = {''C'', ''V''}"
    by (elim conjE) (rule sym)
  from inst have r2: "last (trace ?w') = Broadcast ''page:p1'' {''C'', ''V''} ''shape:add'' (Data rect_msg)"
    by (elim conjE)
  from rs others r1 r2 show ?thesis
    by (intro conjI) (elim conjE, assumption)+
qed

section \<open>The handshake\<close>

lemma find_user_id:
  assumes "find (\<lambda>u. user_id u = uid) us = Some u"
  shows "user_id u = uid"
  using assms by (auto simp add: find_Some_iff)

lemma find_no_membership:
  assumes "\<forall>m \<in> set ms. \<not> (m_userId m = uid \<and> m_boardId m = bid)"
  shows "find (\<lambda>m. m_userId m = uid) (filter (\<lambda>m. m_boardId m = bid) ms) = None"
  using assms by (auto simp add: find_None_iff)

lemma board_room_member:
  "i \<in> rooms (snd (establish i uid bid pid canEdit userName w)) (board_room (Some bid))"
  by (simp add: establish_def socket_join_def Let_def board_room_def page_room_def
        interpolate_def)

text \<open>
  Claim C9. A handshake on the bearer path with a token that verifies, a user that exists
  and a board that exists is accepted although the user has no membership row for the
  board: the connection is established with \<open>canEdit\<close> true exactly when the user owns the
  board (so false for anyone else), and the socket is in the board's room.
\<close>

theorem bearer_without_membership_is_admitted:
  assumes "auth_boardId a = Some bid" and "bid \<noteq> []"
    and "token a = Some tok" and "tok \<noteq> []"
    and "verify tok = Some \<lparr>userId = Some uid\<rparr>"
    and "online (db w)"
    and "find (\<lambda>u. user_id u = uid) (users (db w)) = Some u"
    and "find (\<lambda>b. board_id b = bid) (boards (db w)) = Some b"
    and "\<forall>m \<in> set (memberships (db w)). \<not> (m_userId m = uid \<and> m_boardId m = bid)"
  shows "io_use verify i a w =
           Inr (establish i (Some uid) bid (auth_pageId a) (ownerId b = uid)
                  (if truthy (user_name u) then interpolate (user_name u) else email u) w) \<and>
         data_canEdit (sdata (fst (establish i (Some uid) bid (auth_pageId a) (ownerId b = uid)
                  (if truthy (user_name u) then interpolate (user_name u) else email u) w))) =
           (ownerId b = uid) \<and>
         i \<in> rooms (snd (establish i (Some uid) bid (auth_pageId a) (ownerId b = uid)
                  (if truthy (user_name u) then interpolate (user_name u) else email u) w))
               (board_room (Some bid))"
proof -
  from assms(7) have u: "user_id u = uid"
    by (rule find_user_id)
  from assms(9) have none:
    "find (\<lambda>m. m_userId m = uid) (filter (\<lambda>m. m_boardId m = bid) (memberships (db w))) = None"
    by (rule find_no_membership)
  have "io_use verify i a w =
           Inr (establish i (Some uid) bid (auth_pageId a) (ownerId b = uid)
                  (if truthy (user_name u) then interpolate (user_name u) else email u) w)"
    using assms(1-8) u none
    by (simp add: io_use_def bearer_path_def user_findUnique_def board_findUnique_def
          truthy_def interpolate_def Let_def)
  moreover have "data_canEdit (sdata (fst (establish i (Some uid) bid (auth_pageId a)
                  (ownerId b = uid)
                  (if truthy (user_name u) then interpolate (user_name u) else email u) w))) =
           (ownerId b = uid)"
    by (simp add: establish_def Let_def)
  ultimately show ?thesis
    using board_room_member by simp
qed

text \<open>Bob, who is neither owner nor member of b1, connects to it with his own token.\<close>

theorem bearer_without_membership_is_admitted_witness:
  "filter (\<lambda>m. m_userId m = ''u2'' \<and> m_boardId m = ''b1'') (memberships demo_db) = [] \<and>
   io_use demo_verify ''N'' bob_handshake demo_world =
     Inr (\<lparr>sid = ''N'',
           sdata = \<lparr>data_userId = Some ''u2'', data_boardId = ''b1'', data_pageId = Some ''p1'',
                    data_canEdit = False, data_userName = ''bob@example.org''\<rparr>\<rparr>,
          \<lparr>rooms = demo_rooms(''board:b1'' := {''N'', ''A'', ''B'', ''V''},
                               ''page:p1'' := {''N'', ''A'', ''B'', ''V''}),
           db = demo_db,
           trace = [Join ''N'' ''board:b1'', Join ''N'' ''page:p1'']\<rparr>)"
proof -
  have est: "establish ''N'' (Some ''u2'') ''b1'' (Some ''p1'') False ''bob@example.org'' demo_world =
     (\<lparr>sid = ''N'',
           sdata = \<lparr>data_userId = Some ''u2'', data_boardId = ''b1'', data_pageId = Some ''p1'',
                    data_canEdit = False, data_userName = ''bob@example.org''\<rparr>\<rparr>,
          \<lparr>rooms = demo_rooms(''board:b1'' := {''N'', ''A'', ''B'', ''V''},
                               ''page:p1'' := {''N'', ''A'', ''B'', ''V''}),
           db = demo_db,
           trace = [Join ''N'' ''board:b1'', Join ''N'' ''page:p1'']\<rparr>)"
    by (simp add: establish_def socket_join_def Let_def board_room_def page_room_def
          interpolate_def truthy_def demo_world_def demo_rooms_def)
  have "io_use demo_verify ''N'' bob_handshake demo_world =
          Inr (establish ''N'' (Some ''u2'') ''b1'' (Some ''p1'') False ''bob@example.org'' demo_world)"
    using bearer_without_membership_is_admitted
      [of bob_handshake "''b1''" "''jwt-bob''" demo_verify "''u2''" demo_world
          "\<lparr>user_id = ''u2'', email = ''bob@example.org'', user_name = None\<rparr>"
          "\<lparr>board_id = ''b1'', ownerId = ''u1''\<rparr>" "''N''"]
    by (simp add: bob_handshake_def demo_verify_def demo_world_def demo_db_def truthy_def)
  with est show ?thesis
    by (simp add: demo_db_def)
qed

text \<open>
  Claim C10. When a bearer token is supplied, the share token makes no difference to the
  outcome of the handshake, whatever it is: the middleware takes the bearer branch, which
  never reads the share token, so supplying both is not a reason for rejection and identity
  and capability come from the bearer token alone.
\<close>

theorem bearer_token_shadows_share_token:
  assumes "truthy (token a)"
  shows "io_use verify i (a\<lparr>shareToken := st\<rparr>) w = io_use verify i a w \<and>
         (truthy (auth_boardId a) \<longrightarrow>
            io_use verify i a w =
              bearer_path verify i (interpolate (token a)) (interpolate (auth_boardId a))
                (auth_pageId a) w)"
  using assms by (simp add: io_use_def)

text \<open>
  Alice connects with her token and the read-only share link of b1: she is admitted as
  herself and may edit, as she is with a share token that does not exist.
\<close>

theorem bearer_token_shadows_share_token_witness:
  "truthy (token both_handshake) \<and> truthy (shareToken both_handshake) \<and>
   io_use demo_verify ''N'' both_handshake demo_world =
     Inr (\<lparr>sid = ''N'',
           sdata = \<lparr>data_userId = Some ''u1'', data_boardId = ''b1'', data_pageId = None,
                    data_canEdit = True, data_userName = ''Alice''\<rparr>\<rparr>,
          \<lparr>rooms = demo_rooms(''board:b1'' := {''N'', ''A'', ''B'', ''V''}),
           db = demo_db,
           trace = [Join ''N'' ''board:b1'']\<rparr>) \<and>
   io_use demo_verify ''N'' (both_handshake\<lparr>shareToken := Some ''bogus''\<rparr>) demo_world =
     io_use demo_verify ''N'' both_handshake demo_world"
proof -
  have both: "truthy (token both_handshake)" "truthy (shareToken both_handshake)"
    by (simp_all add: both_handshake_def truthy_def)
  have run: "io_use demo_verify ''N'' both_handshake demo_world =
     Inr (\<lparr>sid = ''N'',
           sdata = \<lparr>data_userId = Some ''u1'', data_boardId = ''b1'', data_pageId = None,
                    data_canEdit = True, data_userName = ''Alice''\<rparr>\<rparr>,
          \<lparr>rooms = demo_rooms(''board:b1'' := {''N'', ''A'', ''B'', ''V''}),
           db = demo_db,
           trace = [Join ''N'' ''board:b1'']\<rparr>)"
    by (simp add: io_use_def bearer_path_def user_findUnique_def board_findUnique_def
          establish_def socket_join_def board_room_def interpolate_def truthy_def Let_def
          both_handshake_def demo_verify_def demo_world_def demo_db_def demo_rooms_def)
  from bearer_token_shadows_share_token
         [OF both(1), of demo_verify "''N''" "Some ''bogus''" demo_world]
  have "io_use demo_verify ''N'' (both_handshake\<lparr>shareToken := Some ''bogus''\<rparr>) demo_world =
          io_use demo_verify ''N'' both_handshake demo_world"
    by (elim conjE)
  with both run show ?thesis
    by (intro conjI)
qed

end
